theory Spec2Isabelle
  imports Main "HOL-Library.Word"
begin

section \<open>The Wayland interoperability shim (wayland-protocols-jni.c)\<close>

text \<open>
  The translation unit exports seven functions: four accessors that return the address
  of an interface descriptor declared \<^verbatim>\<open>extern const\<close> (lines 13 to 37), and three
  wrappers whose body is one call into the Wayland client library (lines 41 to 81).
  It defines no object of its own: no global, no static, no local variable.
\<close>

subsection \<open>Values\<close>

text \<open>
  The integer parameters, as the source types them on Linux: \<^verbatim>\<open>uint32_t\<close>,
  \<^verbatim>\<open>int32_t\<close> and \<^verbatim>\<open>int\<close> are 32 bits wide. A signed parameter is read with
  \<^term>\<open>sint\<close>, an unsigned one with \<^term>\<open>uint\<close>.
\<close>

type_synonym uint32_t = "32 word"
type_synonym int32_t = "32 word"
type_synonym c_int = "32 word"

text \<open>
  The four objects declared at lines 13 to 16. Their definitions are in the generated
  protocol code the library is linked with; the source only takes their addresses.
\<close>

datatype wl_interface_object =
    zwlr_layer_shell_v1_interface
  | zwlr_layer_surface_v1_interface
  | zxdg_output_manager_v1_interface
  | zxdg_output_v1_interface

text \<open>
  Pointers, as the C abstract machine has them: the null pointer, the address of one of
  the declared objects (the value of \<^verbatim>\<open>&x\<close>), or a pointer to some other object,
  which the source never names: a proxy of the client library or the characters of the
  namespace. The natural number identifies that object. In C the address of an object
  is not null and two objects have two addresses; the constructors say the same.
\<close>

datatype ptr =
    NULL
  | Address_of wl_interface_object
  | Handle nat

subsection \<open>C functions with effects\<close>

text \<open>
  A C function runs in the state of the process and of the display connection, the
  world \<open>'w\<close>. It either returns a value and leaves a world, or does not return at all
  (the library aborts the process, or a null proxy is dereferenced inside it):
  \<^term>\<open>None\<close>. The shim is parametric in \<open>'w\<close>: it has no operation on the world
  but the library's calls.
\<close>

type_synonym ('w, 'a) c_fun = "'w \<Rightarrow> ('a \<times> 'w) option"

definition c_return :: "'a \<Rightarrow> ('w, 'a) c_fun" where
  "c_return v = (\<lambda>w. Some (v, w))"

definition c_call :: "('w, 'a) c_fun \<Rightarrow> ('a \<Rightarrow> ('w, 'b) c_fun) \<Rightarrow> ('w, 'b) c_fun" where
  "c_call f k = (\<lambda>w. case f w of None \<Rightarrow> None | Some (v, w') \<Rightarrow> k v w')"

subsection \<open>The client library\<close>

text \<open>
  The three functions the wrappers call are declared in \<^verbatim>\<open>wayland-client.h\<close> and
  in the generated layer-shell header, which are not part of the source: they are
  parameters of the model, with the signatures of their C declarations.
\<close>

record 'w wayland_client =
  zwlr_layer_shell_v1_get_layer_surface ::
    "ptr \<Rightarrow> ptr \<Rightarrow> ptr \<Rightarrow> uint32_t \<Rightarrow> ptr \<Rightarrow> ('w, ptr) c_fun"
  wl_shm_create_pool ::
    "ptr \<Rightarrow> int32_t \<Rightarrow> int32_t \<Rightarrow> ('w, ptr) c_fun"
  wl_shm_pool_create_buffer ::
    "ptr \<Rightarrow> int32_t \<Rightarrow> int32_t \<Rightarrow> int32_t \<Rightarrow> int32_t \<Rightarrow> uint32_t \<Rightarrow> ('w, ptr) c_fun"

subsection \<open>The descriptor accessors (lines 19 to 37)\<close>

definition get_zwlr_layer_shell_v1_interface :: "('w, ptr) c_fun" where
  "get_zwlr_layer_shell_v1_interface = c_return (Address_of zwlr_layer_shell_v1_interface)"

definition get_zwlr_layer_surface_v1_interface :: "('w, ptr) c_fun" where
  "get_zwlr_layer_surface_v1_interface = c_return (Address_of zwlr_layer_surface_v1_interface)"

definition get_zxdg_output_manager_v1_interface :: "('w, ptr) c_fun" where
  "get_zxdg_output_manager_v1_interface = c_return (Address_of zxdg_output_manager_v1_interface)"

definition get_zxdg_output_v1_interface :: "('w, ptr) c_fun" where
  "get_zxdg_output_v1_interface = c_return (Address_of zxdg_output_v1_interface)"

subsection \<open>The constructor wrappers (lines 41 to 81)\<close>

text \<open>
  Each body is \<^verbatim>\<open>return f(args);\<close>: the call is made, and the value it returned is
  returned. The \<^verbatim>\<open>int fd\<close> of \<open>create_shm_pool\<close> is converted to the
  \<^verbatim>\<open>int32_t\<close> of the library's parameter, which on Linux is the same type.
\<close>

definition create_layer_surface ::
  "'w wayland_client \<Rightarrow> ptr \<Rightarrow> ptr \<Rightarrow> ptr \<Rightarrow> uint32_t \<Rightarrow> ptr \<Rightarrow> ('w, ptr) c_fun" where
  "create_layer_surface lib layer_shell surface output layer namespace =
     c_call (zwlr_layer_shell_v1_get_layer_surface lib layer_shell surface output layer namespace)
       (\<lambda>r. c_return r)"

definition create_shm_pool ::
  "'w wayland_client \<Rightarrow> ptr \<Rightarrow> c_int \<Rightarrow> int32_t \<Rightarrow> ('w, ptr) c_fun" where
  "create_shm_pool lib shm fd size' =
     c_call (wl_shm_create_pool lib shm fd size') (\<lambda>r. c_return r)"

definition create_buffer_from_pool ::
  "'w wayland_client \<Rightarrow> ptr \<Rightarrow> int32_t \<Rightarrow> int32_t \<Rightarrow> int32_t \<Rightarrow> int32_t \<Rightarrow> uint32_t
     \<Rightarrow> ('w, ptr) c_fun" where
  "create_buffer_from_pool lib pool offset width height stride format =
     c_call (wl_shm_pool_create_buffer lib pool offset width height stride format)
       (\<lambda>r. c_return r)"

subsection \<open>The exported symbol table\<close>

text \<open>
  A foreign caller resolves one of the seven exported symbols and calls it with
  arguments of the parameter types. An invocation is that choice; \<open>invoke\<close> calls the
  function of the source that the symbol names.
\<close>

datatype invocation =
    Get_zwlr_layer_shell_v1_interface
  | Get_zwlr_layer_surface_v1_interface
  | Get_zxdg_output_manager_v1_interface
  | Get_zxdg_output_v1_interface
  | Create_layer_surface ptr ptr ptr uint32_t ptr
  | Create_shm_pool ptr c_int int32_t
  | Create_buffer_from_pool ptr int32_t int32_t int32_t int32_t uint32_t

fun invoke :: "'w wayland_client \<Rightarrow> invocation \<Rightarrow> ('w, ptr) c_fun" where
  "invoke lib Get_zwlr_layer_shell_v1_interface = get_zwlr_layer_shell_v1_interface"
| "invoke lib Get_zwlr_layer_surface_v1_interface = get_zwlr_layer_surface_v1_interface"
| "invoke lib Get_zxdg_output_manager_v1_interface = get_zxdg_output_manager_v1_interface"
| "invoke lib Get_zxdg_output_v1_interface = get_zxdg_output_v1_interface"
| "invoke lib (Create_layer_surface layer_shell surface output layer namespace) =
     create_layer_surface lib layer_shell surface output layer namespace"
| "invoke lib (Create_shm_pool shm fd size') = create_shm_pool lib shm fd size'"
| "invoke lib (Create_buffer_from_pool pool offset width height stride format) =
     create_buffer_from_pool lib pool offset width height stride format"

text \<open>A history of invocations, one after the other, each in the world the last one left.\<close>

fun run :: "('i \<Rightarrow> ('w, 'a) c_fun) \<Rightarrow> 'i list \<Rightarrow> ('w, 'a list) c_fun" where
  "run step [] = c_return []"
| "run step (i # is) =
     c_call (step i) (\<lambda>r. c_call (run step is) (\<lambda>rs. c_return (r # rs)))"

subsection \<open>The contract of the specification\<close>

text \<open>
  The specification's table of the boundary: an accessor takes nothing and yields a
  pointer to a static descriptor; a constructor stands for one call of the client
  library with the caller's arguments. These two functions follow the specification,
  not the source; the theorems compare \<open>invoke\<close> with them.
\<close>

fun is_accessor :: "invocation \<Rightarrow> bool" where
  "is_accessor Get_zwlr_layer_shell_v1_interface = True"
| "is_accessor Get_zwlr_layer_surface_v1_interface = True"
| "is_accessor Get_zxdg_output_manager_v1_interface = True"
| "is_accessor Get_zxdg_output_v1_interface = True"
| "is_accessor (Create_layer_surface layer_shell surface output layer namespace) = False"
| "is_accessor (Create_shm_pool shm fd size') = False"
| "is_accessor (Create_buffer_from_pool pool offset width height stride format) = False"

fun external_call :: "'w wayland_client \<Rightarrow> invocation \<Rightarrow> ('w, ptr) c_fun option" where
  "external_call lib (Create_layer_surface layer_shell surface output layer namespace) =
     Some (zwlr_layer_shell_v1_get_layer_surface lib layer_shell surface output layer namespace)"
| "external_call lib (Create_shm_pool shm fd size') = Some (wl_shm_create_pool lib shm fd size')"
| "external_call lib (Create_buffer_from_pool pool offset width height stride format) =
     Some (wl_shm_pool_create_buffer lib pool offset width height stride format)"
| "external_call lib Get_zwlr_layer_shell_v1_interface = None"
| "external_call lib Get_zwlr_layer_surface_v1_interface = None"
| "external_call lib Get_zxdg_output_manager_v1_interface = None"
| "external_call lib Get_zxdg_output_v1_interface = None"

text \<open>
  The results of the constructor invocations of a history, in order: the results of
  the accessor invocations are left out.
\<close>

definition constructor_results :: "invocation list \<Rightarrow> ptr list \<Rightarrow> ptr list" where
  "constructor_results invs rs = map snd (filter (\<lambda>(i, r). \<not> is_accessor i) (zip invs rs))"

subsection \<open>A recording client library\<close>

text \<open>
  A test double for the library, used to evaluate the wrappers on concrete inputs. Its
  world is the list of the requests it has received, oldest first. It answers a request
  as \<open>answer\<close> says: \<^term>\<open>Some p\<close> returns the pointer \<open>p\<close> (which may be
  \<^term>\<open>NULL\<close>, the library's failure signal), \<^term>\<open>None\<close> does not return.
\<close>

datatype request =
    Get_layer_surface ptr ptr ptr uint32_t ptr
  | Create_pool ptr int32_t int32_t
  | Create_buffer ptr int32_t int32_t int32_t int32_t uint32_t

definition receive :: "(request \<Rightarrow> ptr option) \<Rightarrow> request \<Rightarrow> (request list, ptr) c_fun" where
  "receive answer rq =
     (\<lambda>log. case answer rq of None \<Rightarrow> None | Some p \<Rightarrow> Some (p, log @ [rq]))"

definition recording_client :: "(request \<Rightarrow> ptr option) \<Rightarrow> request list wayland_client" where
  "recording_client answer =
     \<lparr> zwlr_layer_shell_v1_get_layer_surface =
         (\<lambda>layer_shell surface output layer namespace.
            receive answer (Get_layer_surface layer_shell surface output layer namespace)),
       wl_shm_create_pool = (\<lambda>shm fd size'. receive answer (Create_pool shm fd size')),
       wl_shm_pool_create_buffer =
         (\<lambda>pool offset width height stride format.
            receive answer (Create_buffer pool offset width height stride format)) \<rparr>"

section \<open>Shared lemmas\<close>

lemma c_call_return: "c_call f (\<lambda>r. c_return r) = f"
  by (rule ext) (simp add: c_call_def c_return_def split: option.split)

lemma create_layer_surface_eq:
  "create_layer_surface lib layer_shell surface output layer namespace =
     zwlr_layer_shell_v1_get_layer_surface lib layer_shell surface output layer namespace"
  by (simp add: create_layer_surface_def c_call_return)

lemma create_shm_pool_eq:
  "create_shm_pool lib shm fd size' = wl_shm_create_pool lib shm fd size'"
  by (simp add: create_shm_pool_def c_call_return)

lemma create_buffer_from_pool_eq:
  "create_buffer_from_pool lib pool offset width height stride format =
     wl_shm_pool_create_buffer lib pool offset width height stride format"
  by (simp add: create_buffer_from_pool_def c_call_return)

lemma invoke_accessor:
  "is_accessor iv \<Longrightarrow> \<exists>d. invoke lib iv = c_return (Address_of d)"
  by (cases iv)
    (auto simp: get_zwlr_layer_shell_v1_interface_def get_zwlr_layer_surface_v1_interface_def
      get_zxdg_output_manager_v1_interface_def get_zxdg_output_v1_interface_def)

lemma invoke_constructor:
  "\<not> is_accessor iv \<Longrightarrow> external_call lib iv = Some (invoke lib iv)"
  by (cases iv)
    (simp_all add: create_layer_surface_eq create_shm_pool_eq create_buffer_from_pool_eq)

lemma run_Cons:
  "run step (i # is) w =
     (case step i w of None \<Rightarrow> None
      | Some (r, w1) \<Rightarrow>
          (case run step is w1 of None \<Rightarrow> None | Some (rs, w2) \<Rightarrow> Some (r # rs, w2)))"
  by (simp add: c_call_def c_return_def split: option.split)

lemma run_without_accessors:
  "map_option (\<lambda>(rs, w'). (constructor_results invs rs, w')) (run (invoke lib) invs w) =
     run (invoke lib) (filter (\<lambda>i. \<not> is_accessor i) invs) w"
proof (induction invs arbitrary: w)
  case Nil
  show ?case by (simp add: c_return_def constructor_results_def)
next
  case (Cons i invs)
  show ?case
  proof (cases "is_accessor i")
    case True
    then obtain d where d: "invoke lib i = c_return (Address_of d)"
      using invoke_accessor by blast
    have "map_option (\<lambda>(rs, w'). (constructor_results (i # invs) rs, w'))
            (run (invoke lib) (i # invs) w) =
          map_option (\<lambda>(rs, w'). (constructor_results invs rs, w')) (run (invoke lib) invs w)"
      using True
      by (simp add: run_Cons d c_return_def constructor_results_def del: run.simps
          split: option.split)
    with True Cons.IH [of w] show ?thesis by simp
  next
    case False
    show ?thesis
    proof (cases "invoke lib i w")
      case None
      with False show ?thesis by (simp add: run_Cons del: run.simps)
    next
      case (Some a)
      obtain r w1 where a: "a = (r, w1)" by (cases a)
      have "map_option (\<lambda>(rs, w'). (constructor_results (i # invs) rs, w'))
              (run (invoke lib) (i # invs) w) =
            (case map_option (\<lambda>(rs, w'). (constructor_results invs rs, w'))
                    (run (invoke lib) invs w1) of
               None \<Rightarrow> None | Some (rs, w2) \<Rightarrow> Some (r # rs, w2))"
        using False Some a
        by (simp add: run_Cons constructor_results_def del: run.simps split: option.split)
      with False Some a Cons.IH [of w1] show ?thesis by (simp add: run_Cons del: run.simps)
    qed
  qed
qed

lemma external_call_accessor:
  "is_accessor iv \<Longrightarrow> external_call lib iv = None"
  by (cases iv) simp_all

lemma run_library_calls:
  "run (invoke lib) (filter (\<lambda>i. \<not> is_accessor i) invs) =
     run (\<lambda>f. f) (List.map_filter (external_call lib) invs)"
proof (induction invs)
  case Nil
  show ?case by (simp add: List.map_filter_simps)
next
  case (Cons i invs)
  show ?case
  proof (cases "is_accessor i")
    case True
    with Cons.IH show ?thesis
      by (simp add: List.map_filter_simps external_call_accessor)
  next
    case False
    then have "external_call lib i = Some (invoke lib i)"
      by (rule invoke_constructor)
    with False Cons.IH show ?thesis
      by (simp add: List.map_filter_simps)
  qed
qed

section \<open>The constructor wrappers\<close>

text \<open>
  C1. For every layer-shell handle, surface handle, output handle, layer value and
  namespace pointer, in every world and for every behaviour of the library,
  \<open>create_layer_surface\<close> has the outcome of the library's
  \<open>zwlr_layer_shell_v1_get_layer_surface\<close> on the same five arguments in the same order:
  the same returned pointer and the same world afterwards (so no effect of its own), and
  it does not return exactly when the library's call does not.
\<close>

theorem create_layer_surface_passes_through:
  "create_layer_surface lib layer_shell surface output layer namespace w =
     zwlr_layer_shell_v1_get_layer_surface lib layer_shell surface output layer namespace w"
  by (simp add: create_layer_surface_eq)

theorem create_layer_surface_passes_through_example:
  "create_layer_surface (recording_client (\<lambda>rq. Some (Handle 5)))
       (Handle 1) (Handle 2) NULL 2 (Handle 3) [] =
     Some (Handle 5, [Get_layer_surface (Handle 1) (Handle 2) NULL 2 (Handle 3)])"
  unfolding create_layer_surface_passes_through
  by (simp add: recording_client_def receive_def)

text \<open>
  C2. For every shm handle, file descriptor and size, \<open>create_shm_pool\<close> has the outcome
  of the library's \<open>wl_shm_create_pool\<close> on the same three arguments. The world after
  the wrapper is the world after the library's call, so whatever is read from it, such as
  the table of open descriptors, is as the library left it: the wrapper itself neither
  closes nor duplicates the descriptor, and keeps nothing of it.
\<close>

theorem create_shm_pool_passes_through:
  "create_shm_pool lib shm fd size' w = wl_shm_create_pool lib shm fd size' w \<and>
   map_option (\<lambda>(pool, w'). descriptors w') (create_shm_pool lib shm fd size' w) =
     map_option (\<lambda>(pool, w'). descriptors w') (wl_shm_create_pool lib shm fd size' w)"
  by (simp add: create_shm_pool_eq)

theorem create_shm_pool_passes_through_example:
  "create_shm_pool (recording_client (\<lambda>rq. Some (Handle 9))) (Handle 1) 7 4096 [] =
     Some (Handle 9, [Create_pool (Handle 1) 7 4096])"
  unfolding create_shm_pool_passes_through [THEN conjunct1]
  by (simp add: recording_client_def receive_def)

text \<open>
  C3. \<open>create_buffer_from_pool\<close> has the outcome of the library's
  \<open>wl_shm_pool_create_buffer\<close> on the same six arguments, for every pool handle, offset,
  width, height, stride and format. No hypothesis relates \<open>offset + height * stride\<close>
  to a pool size: the geometry that exceeds the pool is forwarded like any other, and the
  wrapper has no failure of its own. In the example the library knows a pool of 16 bytes
  and answers a buffer beyond it with its own failure signal, the null pointer; the
  request reached it unchanged.
\<close>

theorem create_buffer_from_pool_no_bounds_check:
  "create_buffer_from_pool lib pool offset width height stride format w =
     wl_shm_pool_create_buffer lib pool offset width height stride format w"
  by (simp add: create_buffer_from_pool_eq)

theorem create_buffer_from_pool_no_bounds_check_example:
  "(16 :: int) < sint (0 :: int32_t) + sint (100 :: int32_t) * sint (400 :: int32_t) \<and>
   create_buffer_from_pool
       (recording_client (\<lambda>rq. case rq of
            Create_buffer pool offset width height stride format \<Rightarrow>
              if 16 < sint offset + sint height * sint stride then Some NULL
              else Some (Handle 10)
          | _ \<Rightarrow> Some (Handle 9)))
       (Handle 9) 0 100 100 400 0 [Create_pool (Handle 1) 7 16] =
     Some (NULL, [Create_pool (Handle 1) 7 16, Create_buffer (Handle 9) 0 100 100 400 0])"
  unfolding create_buffer_from_pool_no_bounds_check
  by (simp add: recording_client_def receive_def)

section \<open>The descriptor accessors\<close>

text \<open>
  C4. Each of the four descriptor accessors returns, in every world and so at every
  invocation during the life of the process, the address of its own interface descriptor,
  an object of static storage: always the same pointer, and never the null pointer.
\<close>

theorem descriptor_accessors_stable:
  "map_option fst (get_zwlr_layer_shell_v1_interface w) =
     Some (Address_of zwlr_layer_shell_v1_interface) \<and>
   map_option fst (get_zwlr_layer_surface_v1_interface w) =
     Some (Address_of zwlr_layer_surface_v1_interface) \<and>
   map_option fst (get_zxdg_output_manager_v1_interface w) =
     Some (Address_of zxdg_output_manager_v1_interface) \<and>
   map_option fst (get_zxdg_output_v1_interface w) =
     Some (Address_of zxdg_output_v1_interface) \<and>
   Address_of d \<noteq> NULL"
  by (simp add: get_zwlr_layer_shell_v1_interface_def get_zwlr_layer_surface_v1_interface_def
      get_zxdg_output_manager_v1_interface_def get_zxdg_output_v1_interface_def c_return_def)

text \<open>
  C5. The four descriptor accessors cannot fail and have no effect. Each takes no
  argument, returns in every world, leaves the world as it found it, and returns a
  pointer that does not depend on the world.
\<close>

theorem descriptor_accessors_pure:
  "(\<exists>p. \<forall>w. get_zwlr_layer_shell_v1_interface w = Some (p, w)) \<and>
   (\<exists>p. \<forall>w. get_zwlr_layer_surface_v1_interface w = Some (p, w)) \<and>
   (\<exists>p. \<forall>w. get_zxdg_output_manager_v1_interface w = Some (p, w)) \<and>
   (\<exists>p. \<forall>w. get_zxdg_output_v1_interface w = Some (p, w))"
  by (simp add: get_zwlr_layer_shell_v1_interface_def get_zwlr_layer_surface_v1_interface_def
      get_zxdg_output_manager_v1_interface_def get_zxdg_output_v1_interface_def c_return_def)

text \<open>
  C8. The four descriptor accessors return pairwise distinct pointers: each returns the
  address of its own object (layer-shell, layer-surface, xdg-output-manager and
  xdg-output, in this order), and no two of the four pointers are equal, in whatever
  worlds the accessors are invoked.
\<close>

theorem descriptor_addresses_distinct:
  "[map_option fst (get_zwlr_layer_shell_v1_interface w1),
    map_option fst (get_zwlr_layer_surface_v1_interface w2),
    map_option fst (get_zxdg_output_manager_v1_interface w3),
    map_option fst (get_zxdg_output_v1_interface w4)] =
   [Some (Address_of zwlr_layer_shell_v1_interface),
    Some (Address_of zwlr_layer_surface_v1_interface),
    Some (Address_of zxdg_output_manager_v1_interface),
    Some (Address_of zxdg_output_v1_interface)] \<and>
   distinct
     [map_option fst (get_zwlr_layer_shell_v1_interface w1),
      map_option fst (get_zwlr_layer_surface_v1_interface w2),
      map_option fst (get_zxdg_output_manager_v1_interface w3),
      map_option fst (get_zxdg_output_v1_interface w4)]"
  by (simp add: get_zwlr_layer_shell_v1_interface_def get_zwlr_layer_surface_v1_interface_def
      get_zxdg_output_manager_v1_interface_def get_zxdg_output_v1_interface_def c_return_def)

section \<open>Arguments the specification does not expect\<close>

text \<open>
  C9. Every pointer argument of the three constructor wrappers may be null, not only
  the output of \<open>create_layer_surface\<close>: with the null pointer as layer-shell, surface,
  output, namespace, shm or pool, whatever the other arguments, the wrapper has the
  outcome of the library's call on the same arguments, the null pointer among them. It
  makes no null check and reads through no argument: it returns whenever the library's
  call does.
\<close>

theorem null_arguments_forwarded:
  "create_layer_surface lib NULL surface output layer namespace w =
     zwlr_layer_shell_v1_get_layer_surface lib NULL surface output layer namespace w \<and>
   create_layer_surface lib layer_shell NULL output layer namespace w =
     zwlr_layer_shell_v1_get_layer_surface lib layer_shell NULL output layer namespace w \<and>
   create_layer_surface lib layer_shell surface NULL layer namespace w =
     zwlr_layer_shell_v1_get_layer_surface lib layer_shell surface NULL layer namespace w \<and>
   create_layer_surface lib layer_shell surface output layer NULL w =
     zwlr_layer_shell_v1_get_layer_surface lib layer_shell surface output layer NULL w \<and>
   create_shm_pool lib NULL fd size' w = wl_shm_create_pool lib NULL fd size' w \<and>
   create_buffer_from_pool lib NULL offset width height stride format w =
     wl_shm_pool_create_buffer lib NULL offset width height stride format w"
  by (simp add: create_layer_surface_eq create_shm_pool_eq create_buffer_from_pool_eq)

theorem null_arguments_forwarded_example:
  "create_layer_surface (recording_client (\<lambda>rq. Some (Handle 5))) NULL NULL NULL 0 NULL [] =
     Some (Handle 5, [Get_layer_surface NULL NULL NULL 0 NULL]) \<and>
   create_shm_pool (recording_client (\<lambda>rq. Some (Handle 5))) NULL 3 64 [] =
     Some (Handle 5, [Create_pool NULL 3 64]) \<and>
   create_buffer_from_pool (recording_client (\<lambda>rq. Some (Handle 5))) NULL 0 4 4 16 0 [] =
     Some (Handle 5, [Create_buffer NULL 0 4 4 16 0])"
  unfolding null_arguments_forwarded [THEN conjunct1]
    null_arguments_forwarded [THEN conjunct2, THEN conjunct2, THEN conjunct2, THEN conjunct2,
      THEN conjunct1]
    null_arguments_forwarded [THEN conjunct2, THEN conjunct2, THEN conjunct2, THEN conjunct2,
      THEN conjunct2]
  by (simp add: recording_client_def receive_def)

text \<open>
  C10. The size of \<open>create_shm_pool\<close> and the offset, width, height and stride of
  \<open>create_buffer_from_pool\<close> are signed 32-bit integers. A negative value is accepted:
  the wrapper makes no sign or range check, and has the outcome of the library's call on
  the same arguments.
\<close>

theorem negative_numbers_forwarded:
  "(sint size' < 0 \<longrightarrow>
      create_shm_pool lib shm fd size' w = wl_shm_create_pool lib shm fd size' w) \<and>
   (sint offset < 0 \<or> sint width < 0 \<or> sint height < 0 \<or> sint stride < 0 \<longrightarrow>
      create_buffer_from_pool lib pool offset width height stride format w =
        wl_shm_pool_create_buffer lib pool offset width height stride format w)"
  by (simp add: create_shm_pool_eq create_buffer_from_pool_eq)

theorem negative_numbers_forwarded_witness:
  "sint (- 1 :: int32_t) = - 1 \<and>
   sint (- 2147483648 :: int32_t) = - 2147483648 \<and>
   create_shm_pool (recording_client (\<lambda>rq. Some (Handle 9))) (Handle 1) 3 (- 1) [] =
     Some (Handle 9, [Create_pool (Handle 1) 3 (- 1)]) \<and>
   create_buffer_from_pool (recording_client (\<lambda>rq. Some (Handle 9)))
       (Handle 9) (- 1) (- 2147483648) (- 1) (- 1) 0 [] =
     Some (Handle 9, [Create_buffer (Handle 9) (- 1) (- 2147483648) (- 1) (- 1) 0])"
proof -
  have n1: "sint (- 1 :: int32_t) = - 1" by simp
  have n2: "sint (- 2147483648 :: int32_t) = - 2147483648" by simp
  have neg: "sint (- 1 :: int32_t) < 0" by simp
  have a: "create_shm_pool (recording_client (\<lambda>rq. Some (Handle 9))) (Handle 1) 3 (- 1) [] =
      wl_shm_create_pool (recording_client (\<lambda>rq. Some (Handle 9))) (Handle 1) 3 (- 1) []"
    using negative_numbers_forwarded [THEN conjunct1, rule_format, OF neg] .
  have b: "create_buffer_from_pool (recording_client (\<lambda>rq. Some (Handle 9)))
        (Handle 9) (- 1) (- 2147483648) (- 1) (- 1) 0 [] =
      wl_shm_pool_create_buffer (recording_client (\<lambda>rq. Some (Handle 9)))
        (Handle 9) (- 1) (- 2147483648) (- 1) (- 1) 0 []"
    using negative_numbers_forwarded [THEN conjunct2, rule_format, OF disjI1, OF neg] .
  show ?thesis
    unfolding a b using n1 n2 by (simp add: recording_client_def receive_def)
qed

section \<open>The boundary as a whole\<close>

text \<open>
  C6. No exported operation validates its input or fails by itself. For every
  invocation of one of the seven exported functions, in every world and for every
  behaviour of the library: either the invocation stands for no call of the library, and
  it returns the address of a static descriptor and leaves the world unchanged; or it has
  exactly the outcome of the library's call it stands for. So a failure signal of the
  library reaches the caller as the library produced it: when the call returns the null
  pointer the invocation returns the null pointer, with the same world, and when the call
  does not return, neither does the invocation.
\<close>

theorem no_component_local_failure:
  "(case external_call lib iv of
      None \<Rightarrow> \<exists>d. invoke lib iv w = Some (Address_of d, w)
    | Some f \<Rightarrow> invoke lib iv w = f w) \<and>
   (\<forall>f w'. external_call lib iv = Some f \<longrightarrow> f w = Some (NULL, w') \<longrightarrow>
      invoke lib iv w = Some (NULL, w')) \<and>
   (\<forall>f. external_call lib iv = Some f \<longrightarrow> f w = None \<longrightarrow> invoke lib iv w = None)"
proof (cases "is_accessor iv")
  case True
  then obtain d where "invoke lib iv = c_return (Address_of d)"
    using invoke_accessor by blast
  moreover from True have "external_call lib iv = None"
    by (cases iv) simp_all
  ultimately show ?thesis
    by (simp add: c_return_def)
next
  case False
  then have "external_call lib iv = Some (invoke lib iv)"
    by (rule invoke_constructor)
  then show ?thesis
    by simp
qed

theorem no_component_local_failure_witness:
  "external_call (recording_client (\<lambda>rq. Some NULL)) (Create_shm_pool (Handle 1) 3 (- 1)) =
     Some (receive (\<lambda>rq. Some NULL) (Create_pool (Handle 1) 3 (- 1))) \<and>
   receive (\<lambda>rq. Some NULL) (Create_pool (Handle 1) 3 (- 1)) [] =
     Some (NULL, [Create_pool (Handle 1) 3 (- 1)]) \<and>
   invoke (recording_client (\<lambda>rq. Some NULL)) (Create_shm_pool (Handle 1) 3 (- 1)) [] =
     Some (NULL, [Create_pool (Handle 1) 3 (- 1)]) \<and>
   external_call (recording_client (\<lambda>rq. None)) (Create_shm_pool (Handle 1) 3 (- 1)) =
     Some (receive (\<lambda>rq. None) (Create_pool (Handle 1) 3 (- 1))) \<and>
   receive (\<lambda>rq. None) (Create_pool (Handle 1) 3 (- 1)) [] = None \<and>
   invoke (recording_client (\<lambda>rq. None)) (Create_shm_pool (Handle 1) 3 (- 1)) [] = None"
proof -
  have e1: "external_call (recording_client (\<lambda>rq. Some NULL))
        (Create_shm_pool (Handle 1) 3 (- 1)) =
      Some (receive (\<lambda>rq. Some NULL) (Create_pool (Handle 1) 3 (- 1)))"
    by (simp add: recording_client_def)
  have r1: "receive (\<lambda>rq. Some NULL) (Create_pool (Handle 1) 3 (- 1)) [] =
      Some (NULL, [Create_pool (Handle 1) 3 (- 1)])"
    by (simp add: receive_def)
  have e2: "external_call (recording_client (\<lambda>rq. None))
        (Create_shm_pool (Handle 1) 3 (- 1)) =
      Some (receive (\<lambda>rq. None) (Create_pool (Handle 1) 3 (- 1)))"
    by (simp add: recording_client_def)
  have r2: "receive (\<lambda>rq. None) (Create_pool (Handle 1) 3 (- 1)) [] = None"
    by (simp add: receive_def)
  note i1 = no_component_local_failure [THEN conjunct2, THEN conjunct1, rule_format, OF e1 r1]
  note i2 = no_component_local_failure [THEN conjunct2, THEN conjunct2, rule_format, OF e2 r2]
  from e1 r1 i1 e2 r2 i2 show ?thesis
    by (intro conjI)
qed

text \<open>
  C7. The component holds no state of its own: no exported function reads or writes a
  variable of the component. In every world and for every behaviour of the library, the
  whole outcome of an invocation, the world it leaves included, is either the same
  pointer in every world with the world unchanged (an accessor), or exactly the outcome
  of the library's call it stands for (a constructor). So two invocations of the same
  exported function with equal arguments, under any two libraries and in any two worlds
  in which the call they stand for returns the same, return the same. And nothing passes
  from an invocation to a later one but the world the library left: taking the accessor
  invocations out of a history changes neither the result of any constructor invocation
  nor the world at its end, and the constructor results and the final world of a history
  are those of making the library's calls alone, one after the other.
\<close>

theorem no_component_state:
  "(case external_call lib iv of
      None \<Rightarrow> \<exists>p. \<forall>w. invoke lib iv w = Some (p, w)
    | Some f \<Rightarrow> invoke lib iv = f) \<and>
   ((\<forall>f1 f2. external_call lib1 iv = Some f1 \<longrightarrow> external_call lib2 iv = Some f2 \<longrightarrow>
        map_option fst (f1 w1) = map_option fst (f2 w2)) \<longrightarrow>
      map_option fst (invoke lib1 iv w1) = map_option fst (invoke lib2 iv w2)) \<and>
   map_option (\<lambda>(rs, w'). (constructor_results invs rs, w')) (run (invoke lib) invs w) =
     run (invoke lib) (filter (\<lambda>i. \<not> is_accessor i) invs) w \<and>
   map_option (\<lambda>(rs, w'). (constructor_results invs rs, w')) (run (invoke lib) invs w) =
     run (\<lambda>f. f) (List.map_filter (external_call lib) invs) w"
proof (intro conjI impI)
  show "case external_call lib iv of
      None \<Rightarrow> \<exists>p. \<forall>w. invoke lib iv w = Some (p, w)
    | Some f \<Rightarrow> invoke lib iv = f"
  proof (cases "is_accessor iv")
    case True
    then obtain d where "invoke lib iv = c_return (Address_of d)"
      using invoke_accessor by blast
    with True show ?thesis
      by (simp add: external_call_accessor c_return_def)
  next
    case False
    then have "external_call lib iv = Some (invoke lib iv)"
      by (rule invoke_constructor)
    then show ?thesis
      by simp
  qed
next
  assume same: "\<forall>f1 f2. external_call lib1 iv = Some f1 \<longrightarrow> external_call lib2 iv = Some f2 \<longrightarrow>
      map_option fst (f1 w1) = map_option fst (f2 w2)"
  show "map_option fst (invoke lib1 iv w1) = map_option fst (invoke lib2 iv w2)"
  proof (cases "is_accessor iv")
    case True
    then show ?thesis
      by (cases iv)
        (simp_all add: get_zwlr_layer_shell_v1_interface_def
          get_zwlr_layer_surface_v1_interface_def get_zxdg_output_manager_v1_interface_def
          get_zxdg_output_v1_interface_def c_return_def)
  next
    case False
    then have "external_call lib1 iv = Some (invoke lib1 iv)"
      and "external_call lib2 iv = Some (invoke lib2 iv)"
      by (rule invoke_constructor)+
    with same show ?thesis
      by blast
  qed
next
  show "map_option (\<lambda>(rs, w'). (constructor_results invs rs, w')) (run (invoke lib) invs w) =
      run (invoke lib) (filter (\<lambda>i. \<not> is_accessor i) invs) w"
    by (rule run_without_accessors)
next
  show "map_option (\<lambda>(rs, w'). (constructor_results invs rs, w')) (run (invoke lib) invs w) =
      run (\<lambda>f. f) (List.map_filter (external_call lib) invs) w"
    by (simp only: run_without_accessors run_library_calls)
qed

theorem no_component_state_witness:
  "invoke (recording_client (\<lambda>rq. Some (Handle 5))) (Create_shm_pool (Handle 1) 3 64)
       [Create_buffer (Handle 5) 0 4 4 16 0] =
     Some (Handle 5, [Create_buffer (Handle 5) 0 4 4 16 0, Create_pool (Handle 1) 3 64]) \<and>
   map_option fst
     (invoke (recording_client (\<lambda>rq. Some (Handle 5))) (Create_shm_pool (Handle 1) 3 64) []) =
   map_option fst
     (invoke (recording_client (\<lambda>rq. case rq of Create_pool shm fd n \<Rightarrow> Some (Handle 5)
          | _ \<Rightarrow> Some NULL))
        (Create_shm_pool (Handle 1) 3 64) [Create_buffer (Handle 5) 0 4 4 16 0]) \<and>
   run (invoke (recording_client (\<lambda>rq. Some (Handle 5))))
       [Create_shm_pool (Handle 1) 3 64, Create_buffer_from_pool (Handle 5) 0 4 4 16 0] [] =
     map_option (\<lambda>(rs, w'). (constructor_results
         [Get_zxdg_output_v1_interface, Create_shm_pool (Handle 1) 3 64,
          Get_zwlr_layer_shell_v1_interface, Create_buffer_from_pool (Handle 5) 0 4 4 16 0] rs, w'))
       (run (invoke (recording_client (\<lambda>rq. Some (Handle 5))))
         [Get_zxdg_output_v1_interface, Create_shm_pool (Handle 1) 3 64,
          Get_zwlr_layer_shell_v1_interface, Create_buffer_from_pool (Handle 5) 0 4 4 16 0] []) \<and>
   map_option (\<lambda>(rs, w'). (constructor_results
         [Get_zxdg_output_v1_interface, Create_shm_pool (Handle 1) 3 64,
          Get_zwlr_layer_shell_v1_interface, Create_buffer_from_pool (Handle 5) 0 4 4 16 0] rs, w'))
       (run (invoke (recording_client (\<lambda>rq. Some (Handle 5))))
         [Get_zxdg_output_v1_interface, Create_shm_pool (Handle 1) 3 64,
          Get_zwlr_layer_shell_v1_interface, Create_buffer_from_pool (Handle 5) 0 4 4 16 0] []) =
     Some ([Handle 5, Handle 5],
       [Create_pool (Handle 1) 3 64, Create_buffer (Handle 5) 0 4 4 16 0])"
proof -
  have same: "\<forall>f1 f2.
      external_call (recording_client (\<lambda>rq. Some (Handle 5))) (Create_shm_pool (Handle 1) 3 64) =
        Some f1 \<longrightarrow>
      external_call (recording_client (\<lambda>rq. case rq of Create_pool shm fd n \<Rightarrow> Some (Handle 5)
          | _ \<Rightarrow> Some NULL)) (Create_shm_pool (Handle 1) 3 64) = Some f2 \<longrightarrow>
      map_option fst (f1 []) = map_option fst (f2 [Create_buffer (Handle 5) 0 4 4 16 0])"
    by (auto simp: recording_client_def receive_def)
  note whole = no_component_state [THEN conjunct1,
      of "recording_client (\<lambda>rq. Some (Handle 5))" "Create_shm_pool (Handle 1) 3 64"]
  have o: "invoke (recording_client (\<lambda>rq. Some (Handle 5))) (Create_shm_pool (Handle 1) 3 64) =
      receive (\<lambda>rq. Some (Handle 5)) (Create_pool (Handle 1) 3 64)"
    using whole by (simp add: recording_client_def)
  have a: "invoke (recording_client (\<lambda>rq. Some (Handle 5))) (Create_shm_pool (Handle 1) 3 64)
        [Create_buffer (Handle 5) 0 4 4 16 0] =
      Some (Handle 5, [Create_buffer (Handle 5) 0 4 4 16 0, Create_pool (Handle 1) 3 64])"
    unfolding o by (simp add: receive_def)
  note b = no_component_state [THEN conjunct2, THEN conjunct1, THEN mp, OF same]
  note c = no_component_state [THEN conjunct2, THEN conjunct2, THEN conjunct1,
      of "[Get_zxdg_output_v1_interface, Create_shm_pool (Handle 1) 3 64,
           Get_zwlr_layer_shell_v1_interface, Create_buffer_from_pool (Handle 5) 0 4 4 16 0]"
         "recording_client (\<lambda>rq. Some (Handle 5))" "[]"]
  note d = no_component_state [THEN conjunct2, THEN conjunct2, THEN conjunct2,
      of "[Get_zxdg_output_v1_interface, Create_shm_pool (Handle 1) 3 64,
           Get_zwlr_layer_shell_v1_interface, Create_buffer_from_pool (Handle 5) 0 4 4 16 0]"
         "recording_client (\<lambda>rq. Some (Handle 5))" "[]"]
  have e: "run (\<lambda>f. f) (List.map_filter
        (external_call (recording_client (\<lambda>rq. Some (Handle 5))))
        [Get_zxdg_output_v1_interface, Create_shm_pool (Handle 1) 3 64,
         Get_zwlr_layer_shell_v1_interface, Create_buffer_from_pool (Handle 5) 0 4 4 16 0]) [] =
      Some ([Handle 5, Handle 5],
        [Create_pool (Handle 1) 3 64, Create_buffer (Handle 5) 0 4 4 16 0])"
    by (simp add: List.map_filter_simps recording_client_def receive_def c_call_def c_return_def)
  have c': "run (invoke (recording_client (\<lambda>rq. Some (Handle 5))))
        [Create_shm_pool (Handle 1) 3 64, Create_buffer_from_pool (Handle 5) 0 4 4 16 0] [] =
      map_option (\<lambda>(rs, w'). (constructor_results
          [Get_zxdg_output_v1_interface, Create_shm_pool (Handle 1) 3 64,
           Get_zwlr_layer_shell_v1_interface, Create_buffer_from_pool (Handle 5) 0 4 4 16 0] rs, w'))
        (run (invoke (recording_client (\<lambda>rq. Some (Handle 5))))
          [Get_zxdg_output_v1_interface, Create_shm_pool (Handle 1) 3 64,
           Get_zwlr_layer_shell_v1_interface, Create_buffer_from_pool (Handle 5) 0 4 4 16 0] [])"
    using c [symmetric] by simp
  note d' = d [unfolded e]
  from a b c' d' show ?thesis
    by (intro conjI)
qed

end
